theory Spec2Isabelle
  imports Main "HOL-Library.Sublist"
begin

section \<open>Python values, strings and exceptions\<close>

text \<open>
  A Python \<open>str\<close> is modelled as a \<open>string\<close>, one \<open>char\<close> per character. The
  non-ASCII characters of the source's own literals are written as their UTF-8 bytes;
  these literals are only ever compared and concatenated.
\<close>

definition lower_chr :: "char \<Rightarrow> char" where
  "lower_chr c =
     (let n = (of_char c :: nat) in if 65 \<le> n \<and> n \<le> 90 then char_of (n + 32) else c)"

text \<open>\<open>str.lower()\<close> on the ASCII letters.\<close>

definition lower :: "string \<Rightarrow> string" where
  "lower s = map lower_chr s"

text \<open>\<open>str.split(sep)\<close> for a one-character separator.\<close>

fun split :: "char \<Rightarrow> string \<Rightarrow> string list" where
  "split sep [] = [[]]"
| "split sep (c # cs) =
     (if c = sep then [] # split sep cs
      else (case split sep cs of [] \<Rightarrow> [[c]] | p # ps \<Rightarrow> (c # p) # ps))"

text \<open>\<open>str.rfind(c)\<close>: the index of the last occurrence, \<open>None\<close> for Python's -1.\<close>

fun rfind :: "string \<Rightarrow> char \<Rightarrow> nat option" where
  "rfind [] c = None"
| "rfind (x # xs) c =
     (case rfind xs c of
        Some i \<Rightarrow> Some (Suc i)
      | None \<Rightarrow> (if x = c then Some 0 else None))"

text \<open>
  \<open>pathlib.PurePosixPath(p).name\<close>: the path is cut at \<open>/\<close>, empty components and
  \<open>.\<close> components are dropped, and the name is the last component left, or the empty
  string when none is.
\<close>

definition Path_name :: "string \<Rightarrow> string" where
  "Path_name p =
     (case filter (\<lambda>x. x \<noteq> [] \<and> x \<noteq> ''.'') (split (CHR ''/'') p) of
        [] \<Rightarrow> []
      | q # qs \<Rightarrow> last (q # qs))"

text \<open>
  \<open>Path(p).suffix\<close>: with \<open>i = name.rfind('.')\<close>, the suffix is \<open>name[i:]\<close> when
  \<open>0 < i < len(name) - 1\<close> and the empty string otherwise.
\<close>

definition Path_suffix :: "string \<Rightarrow> string" where
  "Path_suffix p =
     (let name = Path_name p in
      case rfind name (CHR ''.'') of
        None \<Rightarrow> []
      | Some i \<Rightarrow> (if 0 < i \<and> i + 1 < length name then drop i name else []))"

datatype datetime = Datetime (year: nat) (month: nat) (day: nat)
  (hour: nat) (minute: nat) (second: nat) (microsecond: nat)

text \<open>
  The values a stored document holds: null, a string, or a native (naive) datetime.
  A document is a dict from field names to values.
\<close>

datatype pyval = PNone | PStr string | PDatetime datetime

type_synonym document = "string \<rightharpoonup> pyval"

text \<open>\<open>d.get(k, default)\<close> and \<open>d.get(k)\<close>.\<close>

definition get_default :: "document \<Rightarrow> string \<Rightarrow> pyval \<Rightarrow> pyval" where
  "get_default d k dflt = (case d k of None \<Rightarrow> dflt | Some v \<Rightarrow> v)"

definition get :: "document \<Rightarrow> string \<Rightarrow> pyval" where
  "get d k = get_default d k PNone"

text \<open>
  \<open>HTTPException(status_code, detail)\<close>. A handler's outcome is \<open>Inl\<close> of the
  HTTPException it raises, or \<open>Inr\<close> of the body it returns, which the framework sends
  with status 200.
\<close>

datatype http_exception = HTTPException (status_code: nat) (detail: string)

definition response_status :: "http_exception + 'a \<Rightarrow> nat" where
  "response_status r = (case r of Inl e \<Rightarrow> status_code e | Inr _ \<Rightarrow> 200)"

text \<open>
  What a \<open>try\<close> body can raise: an HTTPException, or any other exception \<open>e\<close>, kept as
  its message \<open>str(e)\<close>.
\<close>

datatype exn = Http http_exception | Exc string

section \<open>The collaborators of the handlers\<close>

text \<open>
  The filesystem and the document store are outside \<open>main.py\<close> (the \<open>database\<close>
  module is imported, not defined there). The handlers take them as operations on a
  world \<open>'w\<close>: each returns \<open>Inl\<close> of the message of the exception it raises or
  \<open>Inr\<close> of its result, with the world it leaves behind.
  \<^item> \<open>write_file path content\<close>: \<open>path.open("wb")\<close> and \<open>f.write(content)\<close>;
  \<^item> \<open>create_document collection record\<close>, returning the new identifier;
  \<^item> \<open>get_documents collection filter limit\<close>, returning the records found.
\<close>

record 'w platform =
  BASE_DIR :: string
  write_file :: "string \<Rightarrow> string \<Rightarrow> 'w \<Rightarrow> (string + unit) \<times> 'w"
  create_document :: "string \<Rightarrow> document \<Rightarrow> 'w \<Rightarrow> (string + string) \<times> 'w"
  get_documents :: "string \<Rightarrow> (string \<times> pyval) list \<Rightarrow> int \<Rightarrow> 'w \<Rightarrow> string + document list"

definition UPLOAD_DIR :: "'w platform \<Rightarrow> string" where
  "UPLOAD_DIR pf = BASE_DIR pf @ ''/uploads'' @ ''/videos''"

section \<open>Video upload\<close>

record upload_file =
  filename :: string
  content :: string

record upload_response =
  status :: string
  id' :: string
  item :: document

text \<open>The detail of the format rejection: the source's literal, its two accented letters in UTF-8.\<close>

definition unsupported_detail :: string where
  "unsupported_detail =
     ''Podporovan'' @ [CHR 0xC3, CHR 0xA9] @ '' form'' @ [CHR 0xC3, CHR 0xA1]
       @ ''ty: mp4, mov, webm, mkv, avi''"

definition allowed_ext :: "string set" where
  "allowed_ext = {''.mp4'', ''.mov'', ''.webm'', ''.mkv'', ''.avi''}"

text \<open>\<open>description or ""\<close>.\<close>

definition or_empty :: "string option \<Rightarrow> string" where
  "or_empty description = (case description of None \<Rightarrow> [] | Some s \<Rightarrow> s)"

text \<open>
  The body of the \<open>try\<close> in \<open>upload_video\<close>. \<open>hex\<close> is the value of
  \<open>uuid.uuid4().hex\<close> drawn for this request.
\<close>

definition upload_video_body ::
  "'w platform \<Rightarrow> string \<Rightarrow> string \<Rightarrow> string option \<Rightarrow> upload_file \<Rightarrow> 'w
     \<Rightarrow> (exn + upload_response) \<times> 'w" where
  "upload_video_body pf hex title description file w =
     (let ext = lower (Path_suffix (filename file)) in
      if ext \<notin> allowed_ext
      then (Inl (Http (HTTPException 400 unsupported_detail)), w)
      else
        let safe_name = hex @ ext;
            dest_path = UPLOAD_DIR pf @ ''/'' @ safe_name
        in case write_file pf dest_path (content file) w of
             (Inl m, w1) \<Rightarrow> (Inl (Exc m), w1)
           | (Inr _, w1) \<Rightarrow>
               let url_path = ''/uploads/videos/'' @ safe_name;
                   payload = Map.empty(''title'' \<mapsto> PStr title,
                              ''url'' \<mapsto> PStr url_path,
                              ''description'' \<mapsto> PStr (or_empty description),
                              ''thumbnail'' \<mapsto> PNone)
               in (case create_document pf ''videoitem'' payload w1 of
                     (Inl m, w2) \<Rightarrow> (Inl (Exc m), w2)
                   | (Inr new_id, w2) \<Rightarrow>
                       (Inr \<lparr>status = ''ok'', id' = new_id, item = payload\<rparr>, w2)))"

text \<open>
  \<open>upload_video\<close>: \<open>except HTTPException: raise\<close>, then
  \<open>except Exception as e: raise HTTPException(status_code=500, detail=str(e))\<close>.
\<close>

definition upload_video ::
  "'w platform \<Rightarrow> string \<Rightarrow> string \<Rightarrow> string option \<Rightarrow> upload_file \<Rightarrow> 'w
     \<Rightarrow> (http_exception + upload_response) \<times> 'w" where
  "upload_video pf hex title description file w =
     (case upload_video_body pf hex title description file w of
        (Inl (Http e), w') \<Rightarrow> (Inl e, w')
      | (Inl (Exc m), w') \<Rightarrow> (Inl (HTTPException 500 m), w')
      | (Inr r, w') \<Rightarrow> (Inr r, w'))"


section \<open>Timestamps\<close>

text \<open>The decimal digits of a number, and \<open>"%0wd" % n\<close>.\<close>

fun digits :: "nat \<Rightarrow> string" where
  "digits n =
     (if n < 10 then [char_of (48 + n)] else digits (n div 10) @ [char_of (48 + n mod 10)])"

declare digits.simps [simp del]

definition zpad :: "nat \<Rightarrow> nat \<Rightarrow> string" where
  "zpad width n = replicate (width - length (digits n)) (CHR ''0'') @ digits n"

text \<open>
  \<open>datetime.isoformat(sep)\<close> of a naive datetime: \<open>YYYY-MM-DD\<close>, the separator,
  \<open>HH:MM:SS\<close>, and \<open>.ffffff\<close> when the microseconds are not zero.
\<close>

definition isoformat_sep :: "char \<Rightarrow> datetime \<Rightarrow> string" where
  "isoformat_sep sep t =
     zpad 4 (year t) @ ''-'' @ zpad 2 (month t) @ ''-'' @ zpad 2 (day t) @ [sep]
       @ zpad 2 (hour t) @ '':'' @ zpad 2 (minute t) @ '':'' @ zpad 2 (second t)
       @ (if microsecond t \<noteq> 0 then ''.'' @ zpad 6 (microsecond t) else [])"

definition isoformat :: "datetime \<Rightarrow> string" where
  "isoformat t = isoformat_sep (CHR ''T'') t"

text \<open>Python's truth value and \<open>str(v)\<close> of a stored value.\<close>

fun truthy :: "pyval \<Rightarrow> bool" where
  "truthy PNone = False"
| "truthy (PStr s) = (s \<noteq> [])"
| "truthy (PDatetime t) = True"

fun str :: "pyval \<Rightarrow> string" where
  "str PNone = ''None''"
| "str (PStr s) = s"
| "str (PDatetime t) = isoformat_sep (CHR '' '') t"

section \<open>The VideoItem schema\<close>

record VideoItem =
  title :: string
  url :: string
  thumbnail :: "string option"
  description :: "string option"
  created_at :: "string option"

text \<open>
  The checks of the fields of \<open>VideoItem\<close> in \<open>schemas.py\<close>, each giving the value the
  model holds or \<open>None\<close> when the check fails:
  \<open>str\<close> with \<open>min_length\<close> and \<open>max_length\<close>, and \<open>Optional[str]\<close> with
  \<open>max_length\<close>, which accepts null.
\<close>

fun str_field :: "nat \<Rightarrow> nat option \<Rightarrow> pyval \<Rightarrow> string option" where
  "str_field min_length max_length (PStr s) =
     (if min_length \<le> length s \<and> (case max_length of None \<Rightarrow> True | Some m \<Rightarrow> length s \<le> m)
      then Some s else None)"
| "str_field min_length max_length v = None"

fun optional_str_field :: "nat option \<Rightarrow> pyval \<Rightarrow> string option option" where
  "optional_str_field max_length PNone = Some None"
| "optional_str_field max_length (PStr s) =
     (if (case max_length of None \<Rightarrow> True | Some m \<Rightarrow> length s \<le> m) then Some (Some s) else None)"
| "optional_str_field max_length (PDatetime t) = None"

text \<open>
  What \<open>str(e)\<close> of the ValidationError stands for here: the model's name and the
  fields that failed. Its text in the library is longer; nothing below depends on it.
\<close>

definition ValidationError :: "string list \<Rightarrow> string" where
  "ValidationError names = ''validation error for VideoItem:'' @ concat (map ((@) '' '') names)"

text \<open>
  The constructor \<open>VideoItem(title=.., url=.., thumbnail=.., description=.., created_at=..)\<close>:
  title is a string of 2 to 140 characters, url a string, thumbnail an optional string,
  description an optional string of at most 500 characters. It raises a ValidationError
  naming every field that fails. \<open>created_at\<close> is given as the handler computes it, null
  or a string, and always passes.
\<close>

definition VideoItem_init ::
  "pyval \<Rightarrow> pyval \<Rightarrow> pyval \<Rightarrow> pyval \<Rightarrow> string option \<Rightarrow> string + VideoItem" where
  "VideoItem_init t u th d c =
     (case (str_field 2 (Some 140) t, str_field 0 None u,
            optional_str_field None th, optional_str_field (Some 500) d) of
        (Some t', Some u', Some th', Some d') \<Rightarrow>
          Inr \<lparr>title = t', url = u', thumbnail = th', description = d', created_at = c\<rparr>
      | (t', u', th', d') \<Rightarrow>
          Inl (ValidationError
                 ((if t' = None then [''title''] else [])
                  @ (if u' = None then [''url''] else [])
                  @ (if th' = None then [''thumbnail''] else [])
                  @ (if d' = None then [''description''] else []))))"

section \<open>Listing videos and chat messages\<close>

text \<open>
  The timestamp of \<open>list_videos\<close>: \<open>created_at.isoformat()\<close> for a datetime, otherwise
  \<open>str(created_at) if created_at else None\<close>.
\<close>

definition created_iso :: "pyval \<Rightarrow> string option" where
  "created_iso v =
     (case v of
        PDatetime t \<Rightarrow> Some (isoformat t)
      | _ \<Rightarrow> (if truthy v then Some (str v) else None))"

text \<open>
  The loop of \<open>list_videos\<close> over the records found, appending to \<open>items\<close>; the first
  record the constructor refuses ends it with the exception.
\<close>

fun list_videos_loop :: "document list \<Rightarrow> VideoItem list \<Rightarrow> string + VideoItem list" where
  "list_videos_loop [] items = Inr items"
| "list_videos_loop (d # ds) items =
     (case VideoItem_init (get_default d ''title'' (PStr [])) (get_default d ''url'' (PStr []))
             (get d ''thumbnail'') (get d ''description'') (created_iso (get d ''created_at'')) of
        Inl m \<Rightarrow> Inl m
      | Inr v \<Rightarrow> list_videos_loop ds (items @ [v]))"

text \<open>
  \<open>list_videos(limit: int = 50)\<close>; \<open>limit\<close> is \<open>None\<close> when the caller gives none. Any
  exception \<open>e\<close> becomes \<open>HTTPException(status_code=500, detail=str(e))\<close>.
\<close>

definition list_videos :: "'w platform \<Rightarrow> int option \<Rightarrow> 'w \<Rightarrow> http_exception + VideoItem list" where
  "list_videos pf limit w =
     (case get_documents pf ''videoitem'' [] (case limit of None \<Rightarrow> 50 | Some n \<Rightarrow> n) w of
        Inl m \<Rightarrow> Inl (HTTPException 500 m)
      | Inr docs \<Rightarrow>
          (case list_videos_loop docs [] of
             Inl m \<Rightarrow> Inl (HTTPException 500 m)
           | Inr items \<Rightarrow> Inr items))"

text \<open>The loop of \<open>get_chat_messages\<close>, appending to \<open>cleaned\<close>.\<close>

fun get_chat_messages_loop :: "document list \<Rightarrow> document list \<Rightarrow> document list" where
  "get_chat_messages_loop [] cleaned = cleaned"
| "get_chat_messages_loop (d # ds) cleaned =
     get_chat_messages_loop ds
       (cleaned @ [Map.empty(''name'' \<mapsto> get_default d ''name'' (PStr ''Anonym''),
                             ''content'' \<mapsto> get_default d ''content'' (PStr []))])"

text \<open>
  The function \<open>get_chat_messages(limit: int = 30)\<close> as it is written: what it raises or
  returns, before the route's response model is applied.
\<close>

definition get_chat_messages_body ::
  "'w platform \<Rightarrow> int option \<Rightarrow> 'w \<Rightarrow> http_exception + document list" where
  "get_chat_messages_body pf limit w =
     (case get_documents pf ''chatmessage'' [] (case limit of None \<Rightarrow> 30 | Some n \<Rightarrow> n) w of
        Inl m \<Rightarrow> Inl (HTTPException 500 m)
      | Inr docs \<Rightarrow> Inr (get_chat_messages_loop docs []))"

text \<open>
  The checks of \<open>ChatMessage\<close> in \<open>schemas.py\<close> on one returned dict: \<open>name\<close> is a
  string of 2 to 60 characters and \<open>content\<close> a string of 1 to 500 characters. They
  give the object that is sent, with these two fields, or \<open>None\<close> when a check fails.
\<close>

definition ChatMessage_response :: "document \<Rightarrow> document option" where
  "ChatMessage_response d =
     (case (str_field 2 (Some 60) (get d ''name''), str_field 1 (Some 500) (get d ''content'')) of
        (Some n, Some c) \<Rightarrow> Some (Map.empty(''name'' \<mapsto> PStr n, ''content'' \<mapsto> PStr c))
      | _ \<Rightarrow> None)"

text \<open>
  The route \<open>@app.get("/api/chat", response_model=List[ChatMessage])\<close>: the list the
  function returns is validated against the response model, record by record, after the
  function has returned and so outside its \<open>try\<close>. When a record fails, the framework
  answers with status 500 and the body \<open>Internal Server Error\<close>. (\<open>list_videos\<close>
  returns \<open>VideoItem\<close> objects its constructor has accepted, which the response model
  of that route takes as they are.)
\<close>

definition get_chat_messages ::
  "'w platform \<Rightarrow> int option \<Rightarrow> 'w \<Rightarrow> http_exception + document list" where
  "get_chat_messages pf limit w =
     (case get_chat_messages_body pf limit w of
        Inl e \<Rightarrow> Inl e
      | Inr cleaned \<Rightarrow>
          (case those (map ChatMessage_response cleaned) of
             None \<Rightarrow> Inl (HTTPException 500 ''Internal Server Error'')
           | Some sent \<Rightarrow> Inr sent))"

section \<open>The diagnostic endpoint\<close>

text \<open>
  The database handle \<open>db\<close> of the \<open>database\<close> module, as \<open>test_database\<close> uses it:
  \<open>db_name\<close> is the outcome of \<open>db.name if hasattr(db, 'name') else ..\<close> (the name,
  \<open>None\<close> when there is no such attribute, \<open>Inl\<close> when the access raises), and
  \<open>list_collection_names\<close> the outcome of that call.
\<close>

record db_handle =
  db_name :: "string + string option"
  list_collection_names :: "string + string list"

record test_response =
  backend :: string
  database :: string
  database_url :: "string option"
  database_name :: "string option"
  connection_status :: string
  collections :: "string list"

text \<open>The three marks of the source's literals, in UTF-8.\<close>

definition check_mark :: string where
  "check_mark = [CHR 0xE2, CHR 0x9C, CHR 0x85]"

definition cross_mark :: string where
  "cross_mark = [CHR 0xE2, CHR 0x9D, CHR 0x8C]"

definition warning_sign :: string where
  "warning_sign = [CHR 0xE2, CHR 0x9A, CHR 0xA0, CHR 0xEF, CHR 0xB8, CHR 0x8F]"

text \<open>
  The outer \<open>try\<close> body of \<open>test_database\<close>: the message of the exception that leaves
  it, if any, and the \<open>response\<close> dict as updated so far. The inner \<open>try\<close> catches what
  \<open>db.list_collection_names()\<close> raises.
\<close>

definition test_database_body :: "db_handle option \<Rightarrow> test_response \<Rightarrow> string option \<times> test_response" where
  "test_database_body db response =
     (case db of
        Some h \<Rightarrow>
          (let response = response\<lparr>database := check_mark @ '' Available''\<rparr>;
               response = response\<lparr>database_url := Some (check_mark @ '' Configured'')\<rparr>
           in case db_name h of
                Inl m \<Rightarrow> (Some m, response)
              | Inr n \<Rightarrow>
                  (let response = response\<lparr>database_name :=
                         Some (case n of Some s \<Rightarrow> s | None \<Rightarrow> check_mark @ '' Connected'')\<rparr>;
                       response = response\<lparr>connection_status := ''Connected''\<rparr>
                   in case list_collection_names h of
                        Inr cs \<Rightarrow>
                          (None, response\<lparr>collections := take 10 cs,
                                          database := check_mark @ '' Connected & Working''\<rparr>)
                      | Inl m \<Rightarrow>
                          (None, response\<lparr>database :=
                                   warning_sign @ ''  Connected but Error: '' @ take 50 m\<rparr>)))
      | None \<Rightarrow>
          (None, response\<lparr>database := warning_sign @ ''  Available but not initialized''\<rparr>))"

text \<open>
  \<open>test_database\<close>; \<open>getenv\<close> is \<open>os.getenv\<close>, and a variable counts as set when its
  value is a non-empty string.
\<close>

definition env_set :: "(string \<Rightarrow> string option) \<Rightarrow> string \<Rightarrow> bool" where
  "env_set getenv k = (case getenv k of None \<Rightarrow> False | Some v \<Rightarrow> v \<noteq> [])"

definition test_database ::
  "db_handle option \<Rightarrow> (string \<Rightarrow> string option) \<Rightarrow> http_exception + test_response" where
  "test_database db getenv =
     (let response = \<lparr>backend = check_mark @ '' Running'',
                       database = cross_mark @ '' Not Available'',
                       database_url = None,
                       database_name = None,
                       connection_status = ''Not Connected'',
                       collections = []\<rparr>;
          response = (case test_database_body db response of
                        (None, r) \<Rightarrow> r
                      | (Some m, r) \<Rightarrow> r\<lparr>database := cross_mark @ '' Error: '' @ take 50 m\<rparr>);
          response = response\<lparr>database_url :=
            Some (if env_set getenv ''DATABASE_URL'' then check_mark @ '' Set''
                  else cross_mark @ '' Not Set'')\<rparr>;
          response = response\<lparr>database_name :=
            Some (if env_set getenv ''DATABASE_NAME'' then check_mark @ '' Set''
                  else cross_mark @ '' Not Set'')\<rparr>
      in Inr response)"

section \<open>An in-memory filesystem and document store\<close>

text \<open>
  A world to run the handlers in: the files written, in order, and the records stored, in
  order, each with its collection. \<open>disk_fault\<close> and \<open>store_fault\<close>, when set, are the
  message of the exception every write, respectively every store operation, raises.
\<close>

record sim =
  files :: "(string \<times> string) list"
  docs :: "(string \<times> document) list"
  disk_fault :: "string option"
  store_fault :: "string option"

definition sim_write_file :: "string \<Rightarrow> string \<Rightarrow> sim \<Rightarrow> (string + unit) \<times> sim" where
  "sim_write_file path data w =
     (case disk_fault w of
        Some m \<Rightarrow> (Inl m, w)
      | None \<Rightarrow> (Inr (), w\<lparr>files := files w @ [(path, data)]\<rparr>))"

text \<open>
  Modelled from the spec: \<open>create_document\<close> of the \<open>database\<close> module, which is not
  among the sources. "create(collection_name, record) -> identifier": the record is
  added to the collection and a generated identifier returned; a persistence failure
  raises.
\<close>

definition sim_create_document :: "string \<Rightarrow> document \<Rightarrow> sim \<Rightarrow> (string + string) \<times> sim" where
  "sim_create_document collection r w =
     (case store_fault w of
        Some m \<Rightarrow> (Inl m, w)
      | None \<Rightarrow> (Inr (digits (length (docs w))), w\<lparr>docs := docs w @ [(collection, r)]\<rparr>))"

text \<open>
  Modelled from the spec: \<open>get_documents\<close> of the \<open>database\<close> module, which is not
  among the sources. "query(collection_name, filter, limit) -> ordered_or_unordered list
  of records", which "returns at most limit records"; a query failure raises. A record
  matches a filter when it has each of the filter's fields with the filter's value.
\<close>

definition sim_get_documents ::
  "string \<Rightarrow> (string \<times> pyval) list \<Rightarrow> int \<Rightarrow> sim \<Rightarrow> string + document list" where
  "sim_get_documents collection filter_dict limit w =
     (case store_fault w of
        Some m \<Rightarrow> Inl m
      | None \<Rightarrow>
          Inr (take (nat limit)
                 (map snd (filter (\<lambda>(c, d). c = collection \<and> list_all (\<lambda>(k, v). d k = Some v) filter_dict)
                             (docs w)))))"

definition sim_platform :: "sim platform" where
  "sim_platform =
     \<lparr>BASE_DIR = ''/app'', write_file = sim_write_file,
      create_document = sim_create_document, get_documents = sim_get_documents\<rparr>"

definition sim_empty :: sim where
  "sim_empty = \<lparr>files = [], docs = [], disk_fault = None, store_fault = None\<rparr>"

section \<open>Properties of the upload\<close>

text \<open>The four ways through \<open>upload_video\<close>, and what an outcome says of the way taken.\<close>

lemma upload_video_rejected:
  "lower (Path_suffix (filename f)) \<notin> allowed_ext \<Longrightarrow>
   upload_video pf hex t d f w = (Inl (HTTPException 400 unsupported_detail), w)"
  by (simp add: upload_video_def upload_video_body_def)

lemma upload_video_write_fails:
  "lower (Path_suffix (filename f)) \<in> allowed_ext \<Longrightarrow>
   write_file pf (UPLOAD_DIR pf @ ''/'' @ hex @ lower (Path_suffix (filename f))) (content f) w = (Inl m, w1) \<Longrightarrow>
   upload_video pf hex t d f w = (Inl (HTTPException 500 m), w1)"
  by (simp add: upload_video_def upload_video_body_def)

lemma upload_video_create_fails:
  "lower (Path_suffix (filename f)) \<in> allowed_ext \<Longrightarrow>
   write_file pf (UPLOAD_DIR pf @ ''/'' @ hex @ lower (Path_suffix (filename f))) (content f) w = (Inr (), w1) \<Longrightarrow>
   create_document pf ''videoitem''
     (Map.empty(''title'' \<mapsto> PStr t,
                ''url'' \<mapsto> PStr (''/uploads/videos/'' @ hex @ lower (Path_suffix (filename f))),
                ''description'' \<mapsto> PStr (or_empty d),
                ''thumbnail'' \<mapsto> PNone)) w1 = (Inl m, w2) \<Longrightarrow>
   upload_video pf hex t d f w = (Inl (HTTPException 500 m), w2)"
  by (simp add: upload_video_def upload_video_body_def)

lemma upload_video_succeeds:
  "lower (Path_suffix (filename f)) \<in> allowed_ext \<Longrightarrow>
   write_file pf (UPLOAD_DIR pf @ ''/'' @ hex @ lower (Path_suffix (filename f))) (content f) w = (Inr (), w1) \<Longrightarrow>
   create_document pf ''videoitem''
     (Map.empty(''title'' \<mapsto> PStr t,
                ''url'' \<mapsto> PStr (''/uploads/videos/'' @ hex @ lower (Path_suffix (filename f))),
                ''description'' \<mapsto> PStr (or_empty d),
                ''thumbnail'' \<mapsto> PNone)) w1 = (Inr i, w2) \<Longrightarrow>
   upload_video pf hex t d f w =
     (Inr \<lparr>status = ''ok'', id' = i,
           item = Map.empty(''title'' \<mapsto> PStr t,
                ''url'' \<mapsto> PStr (''/uploads/videos/'' @ hex @ lower (Path_suffix (filename f))),
                ''description'' \<mapsto> PStr (or_empty d),
                ''thumbnail'' \<mapsto> PNone)\<rparr>, w2)"
  by (simp add: upload_video_def upload_video_body_def)

lemma upload_video_Inr:
  assumes "upload_video pf hex t d f w = (Inr r, w')"
  shows "lower (Path_suffix (filename f)) \<in> allowed_ext"
    and "\<exists>w1. write_file pf (UPLOAD_DIR pf @ ''/'' @ hex @ lower (Path_suffix (filename f))) (content f) w = (Inr (), w1)
            \<and> create_document pf ''videoitem'' (item r) w1 = (Inr (id' r), w')"
    and "status r = ''ok''"
    and "item r = Map.empty(''title'' \<mapsto> PStr t,
                ''url'' \<mapsto> PStr (''/uploads/videos/'' @ hex @ lower (Path_suffix (filename f))),
                ''description'' \<mapsto> PStr (or_empty d),
                ''thumbnail'' \<mapsto> PNone)"
  using assms
  by (auto simp: upload_video_def upload_video_body_def Let_def
           split: if_splits prod.splits sum.splits exn.splits)

lemma upload_video_Inl:
  "upload_video pf hex t d f w = (Inl e, w') \<Longrightarrow>
     (e = HTTPException 400 unsupported_detail \<and> w' = w \<and> lower (Path_suffix (filename f)) \<notin> allowed_ext)
   \<or> (status_code e = 500 \<and> lower (Path_suffix (filename f)) \<in> allowed_ext)"
  by (auto simp: upload_video_def upload_video_body_def Let_def
           split: if_splits prod.splits sum.splits exn.splits)

lemma detail_names_formats:
  "sublist ''mp4'' unsupported_detail" "sublist ''mov'' unsupported_detail"
  "sublist ''webm'' unsupported_detail" "sublist ''mkv'' unsupported_detail"
  "sublist ''avi'' unsupported_detail"
  by code_simp+

lemma suffix_examples:
  "lower (Path_suffix ''notes.txt'') = ''.txt''"
  "Path_suffix ''clip.MP4'' = ''.MP4''"
  "lower ''.MP4'' = ''.mp4''"
  "lower (Path_suffix ''../../etc/holiday.mp4'') = ''.mp4''"
  "lower (Path_suffix ''a.mp4'') = ''.mp4''"
  by code_simp+

text \<open>
  C1. An upload whose file's lowercased extension is none of mp4, mov, webm, mkv, avi is
  rejected with an HTTPException of status 400 whose detail contains each of the five
  format names, and the world is left as it was. This holds for every platform, so for
  one whose operations record each call: neither \<open>write_file\<close> nor
  \<open>create_document\<close> is applied.
\<close>

theorem upload_rejects_unsupported_extension:
  "lower (Path_suffix (filename f)) \<notin> {''.mp4'', ''.mov'', ''.webm'', ''.mkv'', ''.avi''} \<Longrightarrow>
   upload_video pf hex t d f w = (Inl (HTTPException 400 unsupported_detail), w)
   \<and> sublist ''mp4'' unsupported_detail \<and> sublist ''mov'' unsupported_detail
   \<and> sublist ''webm'' unsupported_detail \<and> sublist ''mkv'' unsupported_detail
   \<and> sublist ''avi'' unsupported_detail"
  using upload_video_rejected [of f pf hex t d w] detail_names_formats
  by (simp add: allowed_ext_def)

text \<open>
  At \<open>notes.txt\<close> on the in-memory world, which keeps every file written and every
  record created: the outcome is the 400 and both lists are still empty.
\<close>

theorem upload_rejects_unsupported_extension_witness:
  "lower (Path_suffix ''notes.txt'') \<notin> {''.mp4'', ''.mov'', ''.webm'', ''.mkv'', ''.avi''}
   \<and> upload_video sim_platform ''0f'' ''Title'' None
         \<lparr>filename = ''notes.txt'', content = ''data''\<rparr> sim_empty
       = (Inl (HTTPException 400 unsupported_detail), sim_empty)
   \<and> files sim_empty = [] \<and> docs sim_empty = []"
  using upload_rejects_unsupported_extension
    [of "\<lparr>filename = ''notes.txt'', content = ''data''\<rparr>" sim_platform "''0f''" "''Title''" None sim_empty]
  by (simp add: suffix_examples sim_empty_def)

lemma digits_0: "digits 0 = ''0''" by code_simp

lemma sim_steps:
  "write_file sim_platform p c \<lparr>files = fs, docs = ds, disk_fault = None, store_fault = sf\<rparr>
     = (Inr (), \<lparr>files = fs @ [(p, c)], docs = ds, disk_fault = None, store_fault = sf\<rparr>)"
  "write_file sim_platform p c \<lparr>files = fs, docs = ds, disk_fault = Some m, store_fault = sf\<rparr>
     = (Inl m, \<lparr>files = fs, docs = ds, disk_fault = Some m, store_fault = sf\<rparr>)"
  "create_document sim_platform k r \<lparr>files = fs, docs = ds, disk_fault = df, store_fault = None\<rparr>
     = (Inr (digits (length ds)), \<lparr>files = fs, docs = ds @ [(k, r)], disk_fault = df, store_fault = None\<rparr>)"
  "create_document sim_platform k r \<lparr>files = fs, docs = ds, disk_fault = df, store_fault = Some m\<rparr>
     = (Inl m, \<lparr>files = fs, docs = ds, disk_fault = df, store_fault = Some m\<rparr>)"
  "UPLOAD_DIR sim_platform = ''/app/uploads/videos''"
  by (simp_all add: sim_platform_def sim_write_file_def sim_create_document_def UPLOAD_DIR_def)

text \<open>
  C2. For an accepted upload the file is written under the name made of the generated hex
  identifier and the lowercased extension of the caller's filename, and the url stored
  is \<open>/uploads/videos/\<close> followed by that name. A file whose extension is \<open>.MP4\<close> is
  accepted, and where the write and the store succeed its url ends in \<open>.mp4\<close>. The
  caller's filename enters only through its lowercased extension: two files with the same
  content whose names agree on it give the same outcome.
\<close>

theorem upload_stored_name_and_url:
  "(upload_video pf hex t d f w = (Inr r, w') \<longrightarrow>
      (\<exists>w1. write_file pf (UPLOAD_DIR pf @ ''/'' @ (hex @ lower (Path_suffix (filename f))))
               (content f) w = (Inr (), w1))
      \<and> item r ''url'' = Some (PStr (''/uploads/videos/'' @ (hex @ lower (Path_suffix (filename f))))))
   \<and> (Path_suffix (filename f) = ''.MP4''
        \<and> write_file pf (UPLOAD_DIR pf @ ''/'' @ (hex @ ''.mp4'')) (content f) w = (Inr (), w1)
        \<and> create_document pf ''videoitem''
             (Map.empty(''title'' \<mapsto> PStr t,
                        ''url'' \<mapsto> PStr (''/uploads/videos/'' @ (hex @ ''.mp4'')),
                        ''description'' \<mapsto> PStr (or_empty d),
                        ''thumbnail'' \<mapsto> PNone)) w1 = (Inr i, w2) \<longrightarrow>
       (\<exists>r. upload_video pf hex t d f w = (Inr r, w2)
            \<and> item r ''url'' = Some (PStr (''/uploads/videos/'' @ hex @ ''.mp4''))))
   \<and> (lower (Path_suffix (filename f)) = lower (Path_suffix (filename f'))
        \<and> content f = content f' \<longrightarrow>
       upload_video pf hex t d f w = upload_video pf hex t d f' w)"
proof (intro conjI impI)
  assume a: "upload_video pf hex t d f w = (Inr r, w')"
  from upload_video_Inr(2) [OF a]
  show "\<exists>w1. write_file pf (UPLOAD_DIR pf @ ''/'' @ (hex @ lower (Path_suffix (filename f))))
               (content f) w = (Inr (), w1)"
    by auto
  from upload_video_Inr(4) [OF a]
  show "item r ''url'' = Some (PStr (''/uploads/videos/'' @ (hex @ lower (Path_suffix (filename f)))))"
    by simp
next
  assume a: "Path_suffix (filename f) = ''.MP4''
        \<and> write_file pf (UPLOAD_DIR pf @ ''/'' @ (hex @ ''.mp4'')) (content f) w = (Inr (), w1)
        \<and> create_document pf ''videoitem''
             (Map.empty(''title'' \<mapsto> PStr t,
                        ''url'' \<mapsto> PStr (''/uploads/videos/'' @ (hex @ ''.mp4'')),
                        ''description'' \<mapsto> PStr (or_empty d),
                        ''thumbnail'' \<mapsto> PNone)) w1 = (Inr i, w2)"
  then have e: "lower (Path_suffix (filename f)) = ''.mp4''"
    by (simp add: suffix_examples)
  have "lower (Path_suffix (filename f)) \<in> allowed_ext"
    by (simp add: e allowed_ext_def)
  from upload_video_succeeds [OF this, of pf hex w w1 t d i w2] a e
  show "\<exists>r. upload_video pf hex t d f w = (Inr r, w2)
            \<and> item r ''url'' = Some (PStr (''/uploads/videos/'' @ hex @ ''.mp4''))"
    by simp
next
  assume "lower (Path_suffix (filename f)) = lower (Path_suffix (filename f'))
        \<and> content f = content f'"
  then have "lower (Path_suffix (filename f)) = lower (Path_suffix (filename f'))"
    and "content f = content f'" by simp_all
  then show "upload_video pf hex t d f w = upload_video pf hex t d f' w"
    unfolding upload_video_def upload_video_body_def by (simp cong: if_cong)
qed

text \<open>
  At \<open>clip.MP4\<close> on the in-memory world: the file is kept as \<open>0f.mp4\<close>, the record
  holds the url \<open>/uploads/videos/0f.mp4\<close>, and \<open>../../etc/holiday.mp4\<close> gives the same.
\<close>

theorem upload_stored_name_and_url_witness:
  "Path_suffix ''clip.MP4'' = ''.MP4''
   \<and> lower (Path_suffix ''clip.MP4'') = lower (Path_suffix ''../../etc/holiday.mp4'')
   \<and> (\<exists>r. upload_video sim_platform ''0f'' ''Title'' None
              \<lparr>filename = ''clip.MP4'', content = ''data''\<rparr> sim_empty
            = (Inr r, \<lparr>files = [(''/app/uploads/videos/0f.mp4'', ''data'')],
                       docs = [(''videoitem'',
                                Map.empty(''title'' \<mapsto> PStr ''Title'',
                                          ''url'' \<mapsto> PStr ''/uploads/videos/0f.mp4'',
                                          ''description'' \<mapsto> PStr [],
                                          ''thumbnail'' \<mapsto> PNone))],
                       disk_fault = None, store_fault = None\<rparr>)
          \<and> item r ''url'' = Some (PStr ''/uploads/videos/0f.mp4''))
   \<and> upload_video sim_platform ''0f'' ''Title'' None
        \<lparr>filename = ''clip.MP4'', content = ''data''\<rparr> sim_empty
     = upload_video sim_platform ''0f'' ''Title'' None
        \<lparr>filename = ''../../etc/holiday.mp4'', content = ''data''\<rparr> sim_empty"
proof -
  have s: "Path_suffix ''clip.MP4'' = ''.MP4''"
    and l: "lower (Path_suffix ''clip.MP4'') = lower (Path_suffix ''../../etc/holiday.mp4'')"
    by (simp_all add: suffix_examples)
  note T = upload_stored_name_and_url
      [of sim_platform "''0f''" "''Title''" None
          "\<lparr>filename = ''clip.MP4'', content = ''data''\<rparr>" sim_empty _ _
          "\<lparr>files = [(''/app/uploads/videos/0f.mp4'', ''data'')], docs = [],
            disk_fault = None, store_fault = None\<rparr>"
          "''0''"
          "\<lparr>files = [(''/app/uploads/videos/0f.mp4'', ''data'')],
                       docs = [(''videoitem'',
                                Map.empty(''title'' \<mapsto> PStr ''Title'',
                                          ''url'' \<mapsto> PStr ''/uploads/videos/0f.mp4'',
                                          ''description'' \<mapsto> PStr [],
                                          ''thumbnail'' \<mapsto> PNone))],
                       disk_fault = None, store_fault = None\<rparr>"
          "\<lparr>filename = ''../../etc/holiday.mp4'', content = ''data''\<rparr>"]
  have A: "\<exists>r. upload_video sim_platform ''0f'' ''Title'' None
              \<lparr>filename = ''clip.MP4'', content = ''data''\<rparr> sim_empty
            = (Inr r, \<lparr>files = [(''/app/uploads/videos/0f.mp4'', ''data'')],
                       docs = [(''videoitem'',
                                Map.empty(''title'' \<mapsto> PStr ''Title'',
                                          ''url'' \<mapsto> PStr ''/uploads/videos/0f.mp4'',
                                          ''description'' \<mapsto> PStr [],
                                          ''thumbnail'' \<mapsto> PNone))],
                       disk_fault = None, store_fault = None\<rparr>)
          \<and> item r ''url'' = Some (PStr ''/uploads/videos/0f.mp4'')"
    using T [THEN conjunct2, THEN conjunct1] s
    by (simp add: sim_steps sim_empty_def or_empty_def digits_0)
  have B: "upload_video sim_platform ''0f'' ''Title'' None
        \<lparr>filename = ''clip.MP4'', content = ''data''\<rparr> sim_empty
     = upload_video sim_platform ''0f'' ''Title'' None
        \<lparr>filename = ''../../etc/holiday.mp4'', content = ''data''\<rparr> sim_empty"
    using T [THEN conjunct2, THEN conjunct2] l by simp
  from s l A B show ?thesis by blast
qed

text \<open>
  C4. For an accepted upload the record given to \<open>create_document\<close>, in the collection
  \<open>videoitem\<close>, has the caller's title, the generated url (which is not empty), the
  caller's description or the empty string when there is none, and a null thumbnail; the
  response carries that same record as \<open>item\<close>, the identifier the store returned as
  \<open>id\<close>, and the status \<open>ok\<close>.
\<close>

theorem upload_persists_and_returns_payload:
  "upload_video pf hex t d f w = (Inr r, w') \<Longrightarrow>
     item r = Map.empty(''title'' \<mapsto> PStr t,
                ''url'' \<mapsto> PStr (''/uploads/videos/'' @ hex @ lower (Path_suffix (filename f))),
                ''description'' \<mapsto> PStr (case d of None \<Rightarrow> [] | Some s \<Rightarrow> s),
                ''thumbnail'' \<mapsto> PNone)
   \<and> ''/uploads/videos/'' @ hex @ lower (Path_suffix (filename f)) \<noteq> []
   \<and> status r = ''ok''
   \<and> (\<exists>w1. write_file pf (UPLOAD_DIR pf @ ''/'' @ hex @ lower (Path_suffix (filename f)))
               (content f) w = (Inr (), w1)
           \<and> create_document pf ''videoitem'' (item r) w1 = (Inr (id' r), w'))"
proof -
  assume a: "upload_video pf hex t d f w = (Inr r, w')"
  note upload_video_Inr [OF a]
  then show ?thesis by (simp add: or_empty_def)
qed

text \<open>At \<open>a.mp4\<close> with the description \<open>About\<close>, on the in-memory world.\<close>

theorem upload_persists_and_returns_payload_witness:
  "upload_video sim_platform ''0f'' ''Title'' (Some ''About'')
       \<lparr>filename = ''a.mp4'', content = ''data''\<rparr> sim_empty
     = (Inr \<lparr>status = ''ok'', id' = ''0'',
             item = Map.empty(''title'' \<mapsto> PStr ''Title'',
                              ''url'' \<mapsto> PStr ''/uploads/videos/0f.mp4'',
                              ''description'' \<mapsto> PStr ''About'',
                              ''thumbnail'' \<mapsto> PNone)\<rparr>,
        \<lparr>files = [(''/app/uploads/videos/0f.mp4'', ''data'')],
         docs = [(''videoitem'',
                  Map.empty(''title'' \<mapsto> PStr ''Title'',
                            ''url'' \<mapsto> PStr ''/uploads/videos/0f.mp4'',
                            ''description'' \<mapsto> PStr ''About'',
                            ''thumbnail'' \<mapsto> PNone))],
         disk_fault = None, store_fault = None\<rparr>)"
proof -
  have e: "lower (Path_suffix (filename \<lparr>filename = ''a.mp4'', content = ''data''\<rparr>)) \<in> allowed_ext"
    by (simp add: suffix_examples allowed_ext_def)
  have "\<exists>r w'. upload_video sim_platform ''0f'' ''Title'' (Some ''About'')
       \<lparr>filename = ''a.mp4'', content = ''data''\<rparr> sim_empty = (Inr r, w')"
    using upload_video_succeeds [OF e, of sim_platform "''0f''" sim_empty _ "''Title''" "Some ''About''"]
    by (simp add: sim_steps sim_empty_def suffix_examples)
  then obtain r w' where u: "upload_video sim_platform ''0f'' ''Title'' (Some ''About'')
       \<lparr>filename = ''a.mp4'', content = ''data''\<rparr> sim_empty = (Inr r, w')"
    by blast
  from upload_persists_and_returns_payload [OF u]
  have "r = \<lparr>status = ''ok'', id' = ''0'',
             item = Map.empty(''title'' \<mapsto> PStr ''Title'',
                              ''url'' \<mapsto> PStr ''/uploads/videos/0f.mp4'',
                              ''description'' \<mapsto> PStr ''About'',
                              ''thumbnail'' \<mapsto> PNone)\<rparr>
        \<and> w' = \<lparr>files = [(''/app/uploads/videos/0f.mp4'', ''data'')],
         docs = [(''videoitem'',
                  Map.empty(''title'' \<mapsto> PStr ''Title'',
                            ''url'' \<mapsto> PStr ''/uploads/videos/0f.mp4'',
                            ''description'' \<mapsto> PStr ''About'',
                            ''thumbnail'' \<mapsto> PNone))],
         disk_fault = None, store_fault = None\<rparr>"
    by (cases r) (auto simp: sim_steps sim_empty_def suffix_examples digits_0)
  with u show ?thesis by simp
qed

text \<open>
  C8. In \<open>upload_video\<close> an HTTPException raised in the body, which is the format
  rejection with status 400, leaves the handler as it is. When the write of the file
  raises, and when \<open>create_document\<close> raises after the write succeeded, the handler
  raises an HTTPException of status 500 whose detail is the message of that exception.
  In the last case the world left is the one \<open>create_document\<close> left after the write:
  nothing is applied to it afterwards, so the file written stays.
\<close>

theorem upload_failure_semantics:
  "(upload_video_body pf hex t d f w = (Inl (Http e), w') \<longrightarrow>
      upload_video pf hex t d f w = (Inl e, w'))
   \<and> (lower (Path_suffix (filename f)) \<notin> allowed_ext \<longrightarrow>
        upload_video pf hex t d f w = (Inl (HTTPException 400 unsupported_detail), w))
   \<and> (lower (Path_suffix (filename f)) \<in> allowed_ext
        \<and> write_file pf (UPLOAD_DIR pf @ ''/'' @ hex @ lower (Path_suffix (filename f)))
             (content f) w = (Inl m, w1) \<longrightarrow>
        upload_video pf hex t d f w = (Inl (HTTPException 500 m), w1))
   \<and> (lower (Path_suffix (filename f)) \<in> allowed_ext
        \<and> write_file pf (UPLOAD_DIR pf @ ''/'' @ hex @ lower (Path_suffix (filename f)))
             (content f) w = (Inr (), w1)
        \<and> create_document pf ''videoitem''
             (Map.empty(''title'' \<mapsto> PStr t,
                ''url'' \<mapsto> PStr (''/uploads/videos/'' @ hex @ lower (Path_suffix (filename f))),
                ''description'' \<mapsto> PStr (or_empty d),
                ''thumbnail'' \<mapsto> PNone)) w1 = (Inl m, w2) \<longrightarrow>
        upload_video pf hex t d f w = (Inl (HTTPException 500 m), w2))"
  using upload_video_rejected [of f pf hex t d w]
    upload_video_write_fails [of f pf hex w m w1 t d]
    upload_video_create_fails [of f pf hex w w1 t d m w2]
  by (simp add: upload_video_def)

text \<open>
  On the in-memory world: \<open>notes.txt\<close> is refused with the 400; with a failing disk the
  outcome is the 500 with the disk's message; with a failing store it is the 500 with the
  store's message, and the file written is still among the files.
\<close>

theorem upload_failure_semantics_witness:
  "upload_video sim_platform ''0f'' ''Title'' None
       \<lparr>filename = ''notes.txt'', content = ''data''\<rparr> sim_empty
     = (Inl (HTTPException 400 unsupported_detail), sim_empty)
   \<and> upload_video sim_platform ''0f'' ''Title'' None
       \<lparr>filename = ''a.mp4'', content = ''data''\<rparr>
       \<lparr>files = [], docs = [], disk_fault = Some ''No space left on device'', store_fault = None\<rparr>
     = (Inl (HTTPException 500 ''No space left on device''),
        \<lparr>files = [], docs = [], disk_fault = Some ''No space left on device'', store_fault = None\<rparr>)
   \<and> upload_video sim_platform ''0f'' ''Title'' None
       \<lparr>filename = ''a.mp4'', content = ''data''\<rparr>
       \<lparr>files = [], docs = [], disk_fault = None, store_fault = Some ''Database not available''\<rparr>
     = (Inl (HTTPException 500 ''Database not available''),
        \<lparr>files = [(''/app/uploads/videos/0f.mp4'', ''data'')], docs = [],
         disk_fault = None, store_fault = Some ''Database not available''\<rparr>)"
proof -
  have n: "lower (Path_suffix (filename \<lparr>filename = ''notes.txt'', content = ''data''\<rparr>)) \<notin> allowed_ext"
    and a: "lower (Path_suffix (filename \<lparr>filename = ''a.mp4'', content = ''data''\<rparr>)) \<in> allowed_ext"
    by (simp_all add: suffix_examples allowed_ext_def)
  have A: "upload_video sim_platform ''0f'' ''Title'' None
       \<lparr>filename = ''notes.txt'', content = ''data''\<rparr> sim_empty
     = (Inl (HTTPException 400 unsupported_detail), sim_empty)"
    using n upload_failure_semantics
      [of sim_platform "''0f''" "''Title''" None
          "\<lparr>filename = ''notes.txt'', content = ''data''\<rparr>" sim_empty]
    by blast
  have B: "upload_video sim_platform ''0f'' ''Title'' None
       \<lparr>filename = ''a.mp4'', content = ''data''\<rparr>
       \<lparr>files = [], docs = [], disk_fault = Some ''No space left on device'', store_fault = None\<rparr>
     = (Inl (HTTPException 500 ''No space left on device''),
        \<lparr>files = [], docs = [], disk_fault = Some ''No space left on device'', store_fault = None\<rparr>)"
    using a upload_failure_semantics
      [of sim_platform "''0f''" "''Title''" None
          "\<lparr>filename = ''a.mp4'', content = ''data''\<rparr>"
          "\<lparr>files = [], docs = [], disk_fault = Some ''No space left on device'', store_fault = None\<rparr>"
          _ _ "''No space left on device''"
          "\<lparr>files = [], docs = [], disk_fault = Some ''No space left on device'', store_fault = None\<rparr>"]
    by (simp add: sim_steps)
  have C: "upload_video sim_platform ''0f'' ''Title'' None
       \<lparr>filename = ''a.mp4'', content = ''data''\<rparr>
       \<lparr>files = [], docs = [], disk_fault = None, store_fault = Some ''Database not available''\<rparr>
     = (Inl (HTTPException 500 ''Database not available''),
        \<lparr>files = [(''/app/uploads/videos/0f.mp4'', ''data'')], docs = [],
         disk_fault = None, store_fault = Some ''Database not available''\<rparr>)"
    using a upload_failure_semantics
      [of sim_platform "''0f''" "''Title''" None
          "\<lparr>filename = ''a.mp4'', content = ''data''\<rparr>"
          "\<lparr>files = [], docs = [], disk_fault = None, store_fault = Some ''Database not available''\<rparr>"
          _ _ "''Database not available''"
          "\<lparr>files = [(''/app/uploads/videos/0f.mp4'', ''data'')], docs = [],
            disk_fault = None, store_fault = Some ''Database not available''\<rparr>"
          "\<lparr>files = [(''/app/uploads/videos/0f.mp4'', ''data'')], docs = [],
            disk_fault = None, store_fault = Some ''Database not available''\<rparr>"]
    by (simp add: sim_steps suffix_examples)
  from A B C show ?thesis by blast
qed

text \<open>
  C3. The upload passes to the store a record whose title was never checked against the
  schema. With the one-character title \<open>x\<close> the upload succeeds and the record is
  stored in \<open>videoitem\<close>; the constructor of \<open>VideoItem\<close>, which the metadata-only
  create and the listing go through, refuses that title; and the listing of the
  collection then fails with status 500.
\<close>

theorem upload_persists_unvalidated_title:
  "upload_video sim_platform ''0f'' ''x'' None
       \<lparr>filename = ''a.mp4'', content = ''data''\<rparr> sim_empty
     = (Inr \<lparr>status = ''ok'', id' = ''0'',
             item = Map.empty(''title'' \<mapsto> PStr ''x'',
                              ''url'' \<mapsto> PStr ''/uploads/videos/0f.mp4'',
                              ''description'' \<mapsto> PStr [],
                              ''thumbnail'' \<mapsto> PNone)\<rparr>,
        \<lparr>files = [(''/app/uploads/videos/0f.mp4'', ''data'')],
         docs = [(''videoitem'',
                  Map.empty(''title'' \<mapsto> PStr ''x'',
                            ''url'' \<mapsto> PStr ''/uploads/videos/0f.mp4'',
                            ''description'' \<mapsto> PStr [],
                            ''thumbnail'' \<mapsto> PNone))],
         disk_fault = None, store_fault = None\<rparr>)
   \<and> isl (VideoItem_init (PStr ''x'') (PStr ''/uploads/videos/0f.mp4'') PNone (PStr []) None)
   \<and> response_status (list_videos sim_platform None
        \<lparr>files = [(''/app/uploads/videos/0f.mp4'', ''data'')],
         docs = [(''videoitem'',
                  Map.empty(''title'' \<mapsto> PStr ''x'',
                            ''url'' \<mapsto> PStr ''/uploads/videos/0f.mp4'',
                            ''description'' \<mapsto> PStr [],
                            ''thumbnail'' \<mapsto> PNone))],
         disk_fault = None, store_fault = None\<rparr>) = 500"
proof -
  have e: "lower (Path_suffix (filename \<lparr>filename = ''a.mp4'', content = ''data''\<rparr>)) \<in> allowed_ext"
    by (simp add: suffix_examples allowed_ext_def)
  have A: "upload_video sim_platform ''0f'' ''x'' None
       \<lparr>filename = ''a.mp4'', content = ''data''\<rparr> sim_empty
     = (Inr \<lparr>status = ''ok'', id' = ''0'',
             item = Map.empty(''title'' \<mapsto> PStr ''x'',
                              ''url'' \<mapsto> PStr ''/uploads/videos/0f.mp4'',
                              ''description'' \<mapsto> PStr [],
                              ''thumbnail'' \<mapsto> PNone)\<rparr>,
        \<lparr>files = [(''/app/uploads/videos/0f.mp4'', ''data'')],
         docs = [(''videoitem'',
                  Map.empty(''title'' \<mapsto> PStr ''x'',
                            ''url'' \<mapsto> PStr ''/uploads/videos/0f.mp4'',
                            ''description'' \<mapsto> PStr [],
                            ''thumbnail'' \<mapsto> PNone))],
         disk_fault = None, store_fault = None\<rparr>)"
    using upload_video_succeeds [OF e, of sim_platform "''0f''" sim_empty
        "\<lparr>files = [(''/app/uploads/videos/0f.mp4'', ''data'')], docs = [],
          disk_fault = None, store_fault = None\<rparr>" "''x''" None "''0''"
        "\<lparr>files = [(''/app/uploads/videos/0f.mp4'', ''data'')],
         docs = [(''videoitem'',
                  Map.empty(''title'' \<mapsto> PStr ''x'',
                            ''url'' \<mapsto> PStr ''/uploads/videos/0f.mp4'',
                            ''description'' \<mapsto> PStr [],
                            ''thumbnail'' \<mapsto> PNone))],
         disk_fault = None, store_fault = None\<rparr>"]
    by (simp add: sim_steps sim_empty_def suffix_examples digits_0 or_empty_def)
  have B: "isl (VideoItem_init (PStr ''x'') (PStr ''/uploads/videos/0f.mp4'') PNone (PStr []) None)"
    by (simp add: VideoItem_init_def)
  have C: "response_status (list_videos sim_platform None
        \<lparr>files = [(''/app/uploads/videos/0f.mp4'', ''data'')],
         docs = [(''videoitem'',
                  Map.empty(''title'' \<mapsto> PStr ''x'',
                            ''url'' \<mapsto> PStr ''/uploads/videos/0f.mp4'',
                            ''description'' \<mapsto> PStr [],
                            ''thumbnail'' \<mapsto> PNone))],
         disk_fault = None, store_fault = None\<rparr>) = 500"
    by (simp add: list_videos_def sim_platform_def sim_get_documents_def VideoItem_init_def
          get_def get_default_def created_iso_def response_status_def)
  from A B C show ?thesis by blast
qed

section \<open>Properties of the lists\<close>

lemma VideoItem_init_Inr:
  "VideoItem_init t u th d c = Inr v \<Longrightarrow>
     created_at v = c \<and> str_field 2 (Some 140) t = Some (title v) \<and> str_field 0 None u = Some (url v)"
  by (auto simp: VideoItem_init_def split: option.splits)

lemma created_iso_get:
  "created_iso (get d ''created_at'') =
     (case d ''created_at'' of
        None \<Rightarrow> None
      | Some PNone \<Rightarrow> None
      | Some (PStr s) \<Rightarrow> (if s = [] then None else Some s)
      | Some (PDatetime t) \<Rightarrow> Some (isoformat t))"
  by (simp add: created_iso_def get_def get_default_def split: option.splits pyval.splits)

lemma list_videos_loop_created_at:
  "list_videos_loop ds items = Inr res \<Longrightarrow>
     map created_at res = map created_at items @ map (\<lambda>d. created_iso (get d ''created_at'')) ds"
proof (induction ds arbitrary: items)
  case Nil
  then show ?case by simp
next
  case (Cons d ds)
  then show ?case
    by (auto split: sum.splits dest: VideoItem_init_Inr)
qed

lemma sim_get:
  "get_documents sim_platform k [] n \<lparr>files = fs, docs = ds, disk_fault = df, store_fault = None\<rparr>
     = Inr (take (nat n) (map snd (filter (\<lambda>(c, d). c = k) ds)))"
  "get_documents sim_platform k [] n \<lparr>files = fs, docs = ds, disk_fault = df, store_fault = Some m\<rparr>
     = Inl m"
  by (simp_all add: sim_platform_def sim_get_documents_def)

lemma iso_example: "isoformat (Datetime 2024 5 17 9 30 0 0) = ''2024-05-17T09:30:00''"
  by code_simp

text \<open>
  C5. A stored record without a title makes \<open>list_videos\<close> fail: the handler puts the
  empty string in its place, the constructor of \<open>VideoItem\<close> refuses a title shorter
  than two characters, and the exception becomes an HTTPException of status 500. A
  record that lacks only the url is listed, with the empty string as its url.
\<close>

theorem list_videos_missing_title_fails:
  "response_status (list_videos sim_platform None
     \<lparr>files = [],
      docs = [(''videoitem'', Map.empty(''url'' \<mapsto> PStr ''/uploads/videos/0f.mp4''))],
      disk_fault = None, store_fault = None\<rparr>) = 500
   \<and> list_videos sim_platform None
     \<lparr>files = [],
      docs = [(''videoitem'', Map.empty(''title'' \<mapsto> PStr ''Clip''))],
      disk_fault = None, store_fault = None\<rparr>
   = Inr [\<lparr>title = ''Clip'', url = [], thumbnail = None, description = None, created_at = None\<rparr>]"
  by (simp add: list_videos_def sim_get VideoItem_init_def get_def get_default_def created_iso_def
        response_status_def)

text \<open>
  C6, as the claim states it, fails where the stored \<open>created_at\<close> is the empty string:
  the item returned has a null \<open>created_at\<close>, not that string.
\<close>

theorem list_videos_empty_created_at_counterexample:
  "list_videos sim_platform None
     \<lparr>files = [],
      docs = [(''videoitem'', Map.empty(''title'' \<mapsto> PStr ''Clip'', ''url'' \<mapsto> PStr ''/v/1'',
                                        ''created_at'' \<mapsto> PStr []))],
      disk_fault = None, store_fault = None\<rparr>
   = Inr [\<lparr>title = ''Clip'', url = ''/v/1'', thumbnail = None, description = None,
           created_at = None\<rparr>]"
  by (simp add: list_videos_def sim_get VideoItem_init_def get_def get_default_def created_iso_def)

text \<open>
  C6, amended. When \<open>list_videos\<close> returns, it returns one item for each record found,
  in order, and the item's \<open>created_at\<close> is the ISO-8601 string of the stored value when
  that is a datetime, the stored string itself when that is a string that is not empty,
  and null when the field is absent, null or the empty string.
\<close>

theorem list_videos_created_at:
  "list_videos pf limit w = Inr items \<Longrightarrow>
     (\<exists>ds. get_documents pf ''videoitem'' [] (case limit of None \<Rightarrow> 50 | Some n \<Rightarrow> n) w = Inr ds
        \<and> map created_at items =
            map (\<lambda>d. case d ''created_at'' of
                        None \<Rightarrow> None
                      | Some PNone \<Rightarrow> None
                      | Some (PStr s) \<Rightarrow> (if s = [] then None else Some s)
                      | Some (PDatetime t) \<Rightarrow> Some (isoformat t)) ds)"
proof -
  assume a: "list_videos pf limit w = Inr items"
  then obtain ds where g: "get_documents pf ''videoitem'' [] (case limit of None \<Rightarrow> 50 | Some n \<Rightarrow> n) w = Inr ds"
    and l: "list_videos_loop ds [] = Inr items"
    by (auto simp: list_videos_def split: sum.splits)
  from list_videos_loop_created_at [OF l]
  have "map created_at items = map (\<lambda>d. created_iso (get d ''created_at'')) ds" by simp
  with g show ?thesis by (simp add: created_iso_get)
qed

text \<open>Three records: a datetime, a string, and no \<open>created_at\<close>.\<close>

theorem list_videos_created_at_witness:
  "list_videos sim_platform None
     \<lparr>files = [],
      docs = [(''videoitem'', Map.empty(''title'' \<mapsto> PStr ''Clip'', ''url'' \<mapsto> PStr ''/v/1'',
                                        ''created_at'' \<mapsto> PDatetime (Datetime 2024 5 17 9 30 0 0))),
              (''videoitem'', Map.empty(''title'' \<mapsto> PStr ''Talk'', ''url'' \<mapsto> PStr ''/v/2'',
                                        ''created_at'' \<mapsto> PStr ''yesterday'')),
              (''videoitem'', Map.empty(''title'' \<mapsto> PStr ''Walk'', ''url'' \<mapsto> PStr ''/v/3''))],
      disk_fault = None, store_fault = None\<rparr>
   = Inr [\<lparr>title = ''Clip'', url = ''/v/1'', thumbnail = None, description = None,
           created_at = Some ''2024-05-17T09:30:00''\<rparr>,
          \<lparr>title = ''Talk'', url = ''/v/2'', thumbnail = None, description = None,
           created_at = Some ''yesterday''\<rparr>,
          \<lparr>title = ''Walk'', url = ''/v/3'', thumbnail = None, description = None,
           created_at = None\<rparr>]"
  (is "?l = Inr ?r")
proof -
  have e: "?l = Inr ?r"
    by (simp add: list_videos_def sim_get VideoItem_init_def get_def get_default_def created_iso_def iso_example)
  from list_videos_created_at [OF e]
  have "map created_at ?r = [Some ''2024-05-17T09:30:00'', Some ''yesterday'', None]"
    by (simp add: sim_get iso_example)
  with e show ?thesis by simp
qed

text \<open>
  C7. A stored chat message without \<open>content\<close> makes \<open>GET /api/chat\<close> fail: the
  function puts the empty string in its place and returns the record, the response model
  \<open>ChatMessage\<close> refuses a content shorter than one character, and the answer has
  status 500. A message that lacks only the name is returned, with \<open>Anonym\<close> as its
  name.
\<close>

theorem chat_list_missing_content_fails:
  "get_chat_messages_body sim_platform None
     \<lparr>files = [],
      docs = [(''chatmessage'', Map.empty(''name'' \<mapsto> PStr ''Eva''))],
      disk_fault = None, store_fault = None\<rparr>
   = Inr [Map.empty(''name'' \<mapsto> PStr ''Eva'', ''content'' \<mapsto> PStr [])]
   \<and> ChatMessage_response (Map.empty(''name'' \<mapsto> PStr ''Eva'', ''content'' \<mapsto> PStr [])) = None
   \<and> response_status (get_chat_messages sim_platform None
     \<lparr>files = [],
      docs = [(''chatmessage'', Map.empty(''name'' \<mapsto> PStr ''Eva''))],
      disk_fault = None, store_fault = None\<rparr>) = 500
   \<and> get_chat_messages sim_platform None
     \<lparr>files = [],
      docs = [(''chatmessage'', Map.empty(''content'' \<mapsto> PStr ''Hello''))],
      disk_fault = None, store_fault = None\<rparr>
   = Inr [Map.empty(''name'' \<mapsto> PStr ''Anonym'', ''content'' \<mapsto> PStr ''Hello'')]"
  by (simp add: get_chat_messages_def get_chat_messages_body_def sim_get ChatMessage_response_def
        get_def get_default_def response_status_def)

section \<open>Properties of the diagnostic endpoint\<close>

text \<open>
  C9. \<open>test_database\<close> returns a body, sent with status 200, whatever the database
  handle and the environment are: no handle, a handle whose name cannot be read, one
  whose listing of the collections raises, or one that works. What went wrong is
  reported in the field \<open>database\<close> of the body, with at most 50 characters of the
  exception's message.
\<close>

theorem test_database_always_200:
  "response_status (test_database db getenv) = 200
   \<and> (\<exists>r. test_database db getenv = Inr r
          \<and> backend r = check_mark @ '' Running''
          \<and> database r =
              (case db of
                 None \<Rightarrow> warning_sign @ ''  Available but not initialized''
               | Some h \<Rightarrow>
                   (case db_name h of
                      Inl m \<Rightarrow> cross_mark @ '' Error: '' @ take 50 m
                    | Inr n \<Rightarrow>
                        (case list_collection_names h of
                           Inl m \<Rightarrow> warning_sign @ ''  Connected but Error: '' @ take 50 m
                         | Inr cs \<Rightarrow> check_mark @ '' Connected & Working''))))"
  by (simp add: test_database_def test_database_body_def response_status_def Let_def
           split: option.splits sum.splits)

text \<open>A handle whose listing raises, with nothing set in the environment.\<close>

theorem test_database_always_200_witness:
  "response_status (test_database
      (Some \<lparr>db_name = Inr (Some ''site''), list_collection_names = Inl ''connection refused''\<rparr>)
      Map.empty) = 200
   \<and> (\<exists>r. test_database
      (Some \<lparr>db_name = Inr (Some ''site''), list_collection_names = Inl ''connection refused''\<rparr>)
      Map.empty = Inr r
        \<and> database r = warning_sign @ ''  Connected but Error: connection refused'')"
  using test_database_always_200
    [of "Some \<lparr>db_name = Inr (Some ''site''), list_collection_names = Inl ''connection refused''\<rparr>"
        Map.empty]
  by auto

text \<open>
  C10. The field \<open>collections\<close> of the body of \<open>test_database\<close> holds the first 10 of
  the names the database lists when the listing is reached and succeeds, and nothing
  otherwise; so never more than 10 names, however many collections there are.
\<close>

theorem test_database_collections_at_most_ten:
  "\<exists>r. test_database db getenv = Inr r
      \<and> length (collections r) \<le> 10
      \<and> collections r =
          (case db of
             None \<Rightarrow> []
           | Some h \<Rightarrow>
               (case db_name h of
                  Inl m \<Rightarrow> []
                | Inr n \<Rightarrow>
                    (case list_collection_names h of
                       Inl m \<Rightarrow> []
                     | Inr cs \<Rightarrow> take 10 cs)))"
  by (simp add: test_database_def test_database_body_def Let_def
           split: option.splits sum.splits)

text \<open>Twelve collections: the first ten are reported.\<close>

theorem test_database_collections_at_most_ten_witness:
  "\<exists>r. test_database
      (Some \<lparr>db_name = Inr (Some ''site''),
             list_collection_names = Inr [''c1'', ''c2'', ''c3'', ''c4'', ''c5'', ''c6'', ''c7'',
                                          ''c8'', ''c9'', ''c10'', ''c11'', ''c12'']\<rparr>)
      Map.empty = Inr r
      \<and> collections r = [''c1'', ''c2'', ''c3'', ''c4'', ''c5'', ''c6'', ''c7'', ''c8'', ''c9'', ''c10'']"
  using test_database_collections_at_most_ten
    [of "Some \<lparr>db_name = Inr (Some ''site''),
             list_collection_names = Inr [''c1'', ''c2'', ''c3'', ''c4'', ''c5'', ''c6'', ''c7'',
                                          ''c8'', ''c9'', ''c10'', ''c11'', ''c12'']\<rparr>"
        Map.empty]
  by auto

end
